theory Spec2Isabelle
  imports Main "HOL-Library.Sublist"
begin

section \<open>The query cache\<close>

text \<open>
  The read cache is the query client of the data-fetching library. The hooks of
  \<^verbatim>\<open>hooks/useMutations\<close> reach it through one operation, prefix invalidation. A
  query key is an array whose first element is the
  entity tag; an entry holds the last known value, the staleness flag and the time of
  the last fetch.
\<close>

type_synonym queryKey = "string list"

record 'v entry =
  val :: 'v
  stale :: bool
  lastFetchedAt :: nat

type_synonym 'v queryCache = "(queryKey \<times> 'v entry) list"

text \<open>
  \<^verbatim>\<open>queryClient.invalidateQueries({ queryKey: key })\<close>: every entry whose key starts
  with \<open>key\<close> is marked stale; its value and timestamp stay.
\<close>

definition invalidateQueries :: "queryKey \<Rightarrow> 'v queryCache \<Rightarrow> 'v queryCache" where
  "invalidateQueries key c =
     map (\<lambda>(k, e). if prefix key k then (k, e\<lparr>stale := True\<rparr>) else (k, e)) c"

fun lookup :: "'v queryCache \<Rightarrow> queryKey \<Rightarrow> 'v entry option" where
  "lookup [] key = None"
| "lookup ((k, e) # c) key = (if k = key then Some e else lookup c key)"

subsection \<open>The invalidation helpers\<close>

text \<open>
  The hooks call \<^verbatim>\<open>invalidateAfterBookChange(queryClient)\<close>,
  \<^verbatim>\<open>invalidateAfterUserChange\<close>, \<^verbatim>\<open>invalidateAfterBorrowChange\<close>,
  \<^verbatim>\<open>invalidateAfterReviewChange\<close>, \<^verbatim>\<open>invalidateAfterAdminChange\<close> and
  \<^verbatim>\<open>invalidateAfterRecommendationChange\<close>, one helper per kind of change.
\<close>

datatype invalidator =
  BookChange | UserChange | BorrowChange | ReviewChange | AdminChange | RecommendationChange

type_synonym invalidationRule = "invalidator \<Rightarrow> queryKey list"

text \<open>
  Modelled from the spec: the module \<^verbatim>\<open>lib/utils/queryInvalidation\<close> that defines the
  six helpers is not among the sources; only their calls are. Following the
  InvalidationRule of the data model and \<^verbatim>\<open>markStale(fingerprintPrefix)\<close> of the read
  cache, a helper marks stale, by prefix match, the entries under each key of its rule
  set. The rule table \<open>R\<close> is a parameter of the model: every general statement below
  holds for every table.
\<close>

definition invalidateAfter :: "invalidationRule \<Rightarrow> invalidator \<Rightarrow> 'v queryCache \<Rightarrow> 'v queryCache" where
  "invalidateAfter R i c = foldl (\<lambda>acc key. invalidateQueries key acc) c (R i)"

text \<open>
  Modelled from the spec: a concrete rule table for the examples, with the tags that the
  comments at the call sites list for each helper (\<^verbatim>\<open>books, borrows, reviews, analytics,
  admin\<close> after a book change, and so on).
\<close>

fun commentRule :: invalidationRule where
  "commentRule BookChange = [[''books''], [''borrows''], [''reviews''], [''analytics''], [''admin'']]"
| "commentRule UserChange = [[''users''], [''borrows''], [''reviews''], [''analytics''], [''admin'']]"
| "commentRule BorrowChange = [[''borrows''], [''books''], [''reviews''], [''analytics''], [''admin'']]"
| "commentRule ReviewChange = [[''reviews''], [''books''], [''analytics'']]"
| "commentRule AdminChange = [[''users''], [''admin-requests''], [''admin-stats'']]"
| "commentRule RecommendationChange = [[''recommendations'']]"

text \<open>
  The helpers that the setup guide of the repository gives in full
  (\<^verbatim>\<open>REACT_QUERY_SETUP_GUIDE.md\<close>, \<^verbatim>\<open>utils/queryInvalidation.js\<close>):
  \<^verbatim>\<open>invalidateDashboardQueries\<close> invalidates \<^verbatim>\<open>["dashboard-stats"]\<close> and then
  \<^verbatim>\<open>["all-resources"]\<close>; \<^verbatim>\<open>invalidateAfterResourceChange(queryClient, entityName)\<close>
  calls it, then invalidates \<^verbatim>\<open>[entityName]\<close> and \<^verbatim>\<open>[entityName.slice(0, -1)]\<close>.
\<close>

definition invalidateDashboardQueries :: "'v queryCache \<Rightarrow> 'v queryCache" where
  "invalidateDashboardQueries c =
     invalidateQueries [''all-resources''] (invalidateQueries [''dashboard-stats''] c)"

definition invalidateAfterResourceChange :: "string \<Rightarrow> 'v queryCache \<Rightarrow> 'v queryCache" where
  "invalidateAfterResourceChange entityName c =
     (let singularKey = butlast entityName
      in invalidateQueries [singularKey]
           (invalidateQueries [entityName] (invalidateDashboardQueries c)))"

section \<open>JavaScript strings\<close>

text \<open>
  \<^verbatim>\<open>a || b\<close> on strings yields \<open>b\<close> when \<open>a\<close> is empty or undefined;
  \<^verbatim>\<open>s.includes(t)\<close> holds when \<open>t\<close> occurs in \<open>s\<close> as a contiguous run; a
  template prints a count in decimal and \<^verbatim>\<open>undefined\<close> for a missing number.
  The numbers printed by the hooks are lengths of arrays and counts of records, held as
  natural numbers; \<open>string_of_nat\<close> prints every digit, which is what JavaScript
  prints below \<^verbatim>\<open>1e21\<close> (from there on it prints an exponent, which is not
  modelled). No statement below reads a printed number except at the count 2.
\<close>

definition orElse :: "string \<Rightarrow> string \<Rightarrow> string" where
  "orElse a b = (if a = [] then b else a)"

definition orElseOpt :: "string option \<Rightarrow> string \<Rightarrow> string" where
  "orElseOpt a b = (case a of None \<Rightarrow> b | Some s \<Rightarrow> orElse s b)"

definition str_includes :: "string \<Rightarrow> string \<Rightarrow> bool" where
  "str_includes s t = sublist t s"

fun string_of_nat :: "nat \<Rightarrow> string" where
  "string_of_nat n =
     (if n < 10 then [char_of (48 + n)]
      else string_of_nat (n div 10) @ [char_of (48 + n mod 10)])"

declare string_of_nat.simps [simp del]

definition string_of_number :: "nat option \<Rightarrow> string" where
  "string_of_number n = (case n of None \<Rightarrow> ''undefined'' | Some k \<Rightarrow> string_of_nat k)"

text \<open>
  Money amounts are held as a whole number of cents; \<^verbatim>\<open>amount.toFixed(2)\<close> prints
  the units, a point and two digits. The source holds an amount as a double, which
  \<^verbatim>\<open>toFixed\<close> rounds to two decimals and prints with an exponent from
  \<^verbatim>\<open>1e21\<close> on; neither is modelled, and no statement below reads a printed amount.
\<close>

definition toFixed2 :: "nat \<Rightarrow> string" where
  "toFixed2 cents =
     string_of_nat (cents div 100) @ ''.'' @
     [char_of (48 + (cents mod 100) div 10), char_of (48 + cents mod 10)]"

section \<open>The mutation hooks\<close>

subsection \<open>Requests, replies and returned values\<close>

datatype role = USER | ADMIN

datatype accountStatus = PENDING | APPROVED | REJECTED

text \<open>
  The variables a hook is called with, one constructor per hook, holding the fields the
  hook reads (the other fields of a payload go to the service unread). The first
  fourteen hooks call a server action that resolves to a result object with a
  \<^verbatim>\<open>success\<close> flag and check it; the last ten call a service function and return
  whatever it resolves to.
\<close>

datatype actionRequest =
    CreateBook string  \<comment> \<open>title\<close>
  | UpdateBook string "string option"  \<comment> \<open>bookId, title\<close>
  | DeleteBook "string list" "string option"  \<comment> \<open>bookIds, bookTitle\<close>
  | UpdateUserRole string role "string option"  \<comment> \<open>userId, role, userName\<close>
  | UpdateUserStatus string accountStatus "string option"  \<comment> \<open>userId, status, userName\<close>
  | ApproveUser string "string option"  \<comment> \<open>userId, userName\<close>
  | RejectUser string "string option"  \<comment> \<open>userId, userName\<close>
  | BorrowBook string string "string option"  \<comment> \<open>userId, bookId, bookTitle\<close>
  | ApproveBorrow string "string option" "string option"  \<comment> \<open>recordId, bookTitle, userName\<close>
  | RejectBorrow string "string option" "string option"  \<comment> \<open>recordId, bookTitle, userName\<close>
  | ReturnBook string "string option"  \<comment> \<open>recordId, bookTitle\<close>
  | ApproveAdminRequest string string "string option"  \<comment> \<open>requestId, reviewedBy, userName\<close>
  | RejectAdminRequest string string "string option" "string option"
      \<comment> \<open>requestId, reviewedBy, rejectionReason, userName\<close>
  | RemoveAdminPrivileges string string "string option"  \<comment> \<open>userId, removedBy, userName\<close>

datatype serviceRequest =
    CreateReview string "string option"  \<comment> \<open>bookId, bookTitle\<close>
  | UpdateReview string "string option"  \<comment> \<open>reviewId, bookTitle\<close>
  | DeleteReview string "string option"  \<comment> \<open>reviewId, bookTitle\<close>
  | UpdateFineConfig nat "string option"  \<comment> \<open>fineAmount, updatedBy\<close>
  | SendDueReminders
  | SendOverdueReminders
  | UpdateOverdueFines "nat option"  \<comment> \<open>customFineAmount\<close>
  | GenerateAllUserRecommendations
  | UpdateTrendingBooks
  | RefreshRecommendationCache

datatype request = Action actionRequest | Service serviceRequest

text \<open>
  What the service sends back, as far as the hooks read it: \<^verbatim>\<open>data?.title\<close>,
  \<^verbatim>\<open>data?.isOverdue\<close>, \<^verbatim>\<open>data.daysOverdue\<close>, \<^verbatim>\<open>data.fineAmount\<close>,
  \<^verbatim>\<open>data?.userFullName\<close>, \<^verbatim>\<open>data.results?.length\<close>,
  \<^verbatim>\<open>data.totalRecommendations\<close>, \<^verbatim>\<open>data.totalUsers\<close>, \<^verbatim>\<open>data.trendingCount\<close>.
  A field the object does not have is \<open>None\<close>.
\<close>

record payload =
  title :: "string option"
  isOverdue :: bool
  daysOverdue :: "nat option"
  fineAmount :: "nat option"
  userFullName :: "string option"
  results :: "nat option"
  totalRecommendations :: "nat option"
  totalUsers :: "nat option"
  trendingCount :: "nat option"

text \<open>
  The awaited call either rejects with an \<^verbatim>\<open>Error\<close> (its message) or resolves: a
  server action to \<^verbatim>\<open>{ success, message | error, data }\<close>, a service function to a
  value.
\<close>

datatype actionReply = ActionThrows string | ActionResult bool "string option" "payload option"

datatype serviceReply = ServiceThrows string | ServiceValue payload

datatype call = ActionCall actionRequest actionReply | ServiceCall serviceRequest serviceReply

fun requestOf :: "call \<Rightarrow> request" where
  "requestOf (ActionCall a r) = Action a"
| "requestOf (ServiceCall s r) = Service s"

text \<open>What \<^verbatim>\<open>mutationFn\<close> returns on success.\<close>

datatype returned =
    RData "payload option"  \<comment> \<open>\<^verbatim>\<open>result.data\<close>\<close>
  | RDeleted "string list" "string option"  \<comment> \<open>\<^verbatim>\<open>{ bookIds, message: result.message }\<close>\<close>
  | RUserRole string role  \<comment> \<open>\<^verbatim>\<open>{ userId, role }\<close>\<close>
  | RUserStatus string accountStatus  \<comment> \<open>\<^verbatim>\<open>{ userId, status }\<close>\<close>
  | RRecordId string  \<comment> \<open>\<^verbatim>\<open>{ recordId }\<close>\<close>
  | RUserId string  \<comment> \<open>\<^verbatim>\<open>{ userId }\<close>\<close>
  | RValue payload  \<comment> \<open>the value a service function resolved to\<close>

subsection \<open>\<^verbatim>\<open>mutationFn\<close>\<close>

text \<open>
  Every checking hook has the shape
  \<^verbatim>\<open>const result = await action(...); if (!result.success) throw new Error(result.error || DEFAULT); return VALUE;\<close>
  (\<^verbatim>\<open>result.message\<close> in the three book hooks). \<open>failureDefault\<close> is \<^verbatim>\<open>DEFAULT\<close> and
  \<open>actionReturn\<close> is \<^verbatim>\<open>VALUE\<close>, hook by hook.
\<close>

fun failureDefault :: "actionRequest \<Rightarrow> string" where
  "failureDefault (CreateBook t) = ''Failed to create book''"
| "failureDefault (UpdateBook b t) = ''Failed to update book''"
| "failureDefault (DeleteBook bs t) = ''Failed to delete book(s)''"
| "failureDefault (UpdateUserRole u r n) = ''Failed to update user role''"
| "failureDefault (UpdateUserStatus u s n) = ''Failed to update user status''"
| "failureDefault (ApproveUser u n) = ''Failed to approve user''"
| "failureDefault (RejectUser u n) = ''Failed to reject user''"
| "failureDefault (BorrowBook u b t) = ''Failed to request book''"
| "failureDefault (ApproveBorrow r t n) = ''Failed to approve borrow request''"
| "failureDefault (RejectBorrow r t n) = ''Failed to reject borrow request''"
| "failureDefault (ReturnBook r t) = ''Failed to return book''"
| "failureDefault (ApproveAdminRequest q v n) = ''Failed to approve admin request''"
| "failureDefault (RejectAdminRequest q v w n) = ''Failed to reject admin request''"
| "failureDefault (RemoveAdminPrivileges u v n) = ''Failed to remove admin privileges''"

fun actionReturn :: "actionRequest \<Rightarrow> string option \<Rightarrow> payload option \<Rightarrow> returned" where
  "actionReturn (CreateBook t) msg d = RData d"
| "actionReturn (UpdateBook b t) msg d = RData d"
| "actionReturn (DeleteBook bs t) msg d = RDeleted bs msg"
| "actionReturn (UpdateUserRole u r n) msg d = RUserRole u r"
| "actionReturn (UpdateUserStatus u s n) msg d = RUserStatus u s"
| "actionReturn (ApproveUser u n) msg d = RUserStatus u APPROVED"
| "actionReturn (RejectUser u n) msg d = RUserStatus u REJECTED"
| "actionReturn (BorrowBook u b t) msg d = RData d"
| "actionReturn (ApproveBorrow r t n) msg d = RRecordId r"
| "actionReturn (RejectBorrow r t n) msg d = RRecordId r"
| "actionReturn (ReturnBook r t) msg d = RData d"
| "actionReturn (ApproveAdminRequest q v n) msg d = RData d"
| "actionReturn (RejectAdminRequest q v w n) msg d = RData d"
| "actionReturn (RemoveAdminPrivileges u v n) msg d = RUserId u"

text \<open>
  \<open>Inl\<close> is the message of the \<^verbatim>\<open>Error\<close> the function throws, its own or the one the
  awaited call rejected with. The service hooks are
  \<^verbatim>\<open>const result = await service(...); return result;\<close> with no check and no default.
\<close>

fun mutationFn :: "call \<Rightarrow> string + returned" where
  "mutationFn (ActionCall a (ActionThrows m)) = Inl m"
| "mutationFn (ActionCall a (ActionResult success msg d)) =
     (if \<not> success then Inl (orElseOpt msg (failureDefault a)) else Inr (actionReturn a msg d))"
| "mutationFn (ServiceCall s (ServiceThrows m)) = Inl m"
| "mutationFn (ServiceCall s (ServiceValue v)) = Inr (RValue v)"

subsection \<open>Notifications and effects\<close>

text \<open>
  The calls on \<^verbatim>\<open>showToast\<close>: \<^verbatim>\<open>success\<close>, \<^verbatim>\<open>error\<close> and \<^verbatim>\<open>warning\<close> take a
  title and a description; the \<^verbatim>\<open>book\<close> and \<^verbatim>\<open>auth\<close> helpers take one string or
  none.
\<close>

datatype toast =
    ToastSuccess string string
  | ToastError string string
  | ToastWarning string string
  | BookCreateSuccess string
  | BookBorrowSuccess string
  | BookBorrowError string
  | BookReturnSuccess string
  | BookReturnError string
  | AuthLogoutSuccess

fun description :: "toast \<Rightarrow> string" where
  "description (ToastSuccess t d) = d"
| "description (ToastError t d) = d"
| "description (ToastWarning t d) = d"
| "description (BookCreateSuccess d) = d"
| "description (BookBorrowSuccess d) = d"
| "description (BookBorrowError d) = d"
| "description (BookReturnSuccess d) = d"
| "description (BookReturnError d) = d"
| "description AuthLogoutSuccess = []"

fun isFailureToast :: "toast \<Rightarrow> bool" where
  "isFailureToast (ToastError t d) = True"
| "isFailureToast (BookBorrowError d) = True"
| "isFailureToast (BookReturnError d) = True"
| "isFailureToast other = False"

text \<open>What a callback of a hook does, in order: calls of a helper and of \<^verbatim>\<open>showToast\<close>.\<close>

datatype effect = Invalidate invalidator | ShowToast toast

subsection \<open>\<^verbatim>\<open>onSuccess\<close>\<close>

text \<open>
  \<^verbatim>\<open>onSuccess(data, variables)\<close> reads \<open>data\<close>, the value \<^verbatim>\<open>mutationFn\<close> returned;
  a field that value does not have reads as undefined.
\<close>

fun payloadOf :: "returned \<Rightarrow> payload option" where
  "payloadOf (RData d) = d"
| "payloadOf (RValue v) = Some v"
| "payloadOf other = None"

definition field :: "(payload \<Rightarrow> 'a option) \<Rightarrow> returned \<Rightarrow> 'a option" where
  "field f data = (case payloadOf data of None \<Rightarrow> None | Some p \<Rightarrow> f p)"

fun dataBookIds :: "returned \<Rightarrow> string list" where
  "dataBookIds (RDeleted bs msg) = bs"
| "dataBookIds other = []"

fun dataRoleIsAdmin :: "returned \<Rightarrow> bool" where
  "dataRoleIsAdmin (RUserRole u r) = (r = ADMIN)"
| "dataRoleIsAdmin other = False"

fun dataStatusText :: "returned \<Rightarrow> string" where
  "dataStatusText (RUserStatus u s) =
     (if s = APPROVED then ''approved'' else if s = REJECTED then ''rejected'' else ''pending'')"
| "dataStatusText other = ''pending''"

definition plural :: "nat option \<Rightarrow> string" where
  "plural count = (if count \<noteq> Some 1 then ''s'' else [])"

definition reminderCount :: "returned \<Rightarrow> nat" where
  "reminderCount data = (case field results data of None \<Rightarrow> 0 | Some n \<Rightarrow> n)"

fun returnToast :: "string \<Rightarrow> payload option \<Rightarrow> toast" where
  \<open>returnToast bookTitle (Some p) =
     (case (isOverdue p, daysOverdue p, fineAmount p) of
        (True, Some days, Some fine) \<Rightarrow>
          ToastWarning ''Book Returned with Fine''
            (''"'' @ bookTitle @ ''" was returned '' @ string_of_nat days @
             '' days overdue. Fine: $'' @ toFixed2 fine)
      | other \<Rightarrow> BookReturnSuccess bookTitle)\<close>
| "returnToast bookTitle None = BookReturnSuccess bookTitle"

fun onSuccess :: "request \<Rightarrow> returned \<Rightarrow> effect list" where
  "onSuccess (Action (CreateBook t)) data =
     [Invalidate BookChange, ShowToast (BookCreateSuccess t)]"
| \<open>onSuccess (Action (UpdateBook b t)) data =
     (let bookTitle = orElseOpt t (orElseOpt (field title data) ''Book'')
      in [Invalidate BookChange,
          ShowToast (ToastSuccess ''Book Updated''
            (''"'' @ bookTitle @ ''" has been updated successfully.''))])\<close>
| \<open>onSuccess (Action (DeleteBook bs t)) data =
     (let count = length (dataBookIds data);
          bookTitle = orElseOpt t (if count = 1 then ''Book'' else string_of_nat count @ '' books'')
      in [Invalidate BookChange,
          ShowToast (ToastSuccess ''Book(s) Deleted''
            (''Successfully deleted '' @
             (if count = 1 then ''"'' @ bookTitle @ ''"'' else string_of_nat count @ '' books'') @
             ''.''))])\<close>
| "onSuccess (Action (UpdateUserRole u r n)) data =
     (let roleText = (if dataRoleIsAdmin data then ''admin'' else ''regular user'');
          userName = orElseOpt n ''User''
      in [Invalidate UserChange,
          ShowToast (ToastSuccess ''Role Updated''
            (userName @ '' has been '' @
             (if dataRoleIsAdmin data then ''promoted to'' else ''demoted from'') @
             '' '' @ roleText @ ''.''))])"
| \<open>onSuccess (Action (UpdateUserStatus u s n)) data =
     (let statusText = dataStatusText data; userName = orElseOpt n ''User''
      in [Invalidate UserChange,
          ShowToast (ToastSuccess ''Status Updated''
            (userName @ '''s account has been '' @ statusText @ ''.''))])\<close>
| \<open>onSuccess (Action (ApproveUser u n)) data =
     (let userName = orElseOpt n ''User''
      in [Invalidate UserChange,
          ShowToast (ToastSuccess ''User Approved''
            (userName @ '''s account has been approved successfully.''))])\<close>
| \<open>onSuccess (Action (RejectUser u n)) data =
     (let userName = orElseOpt n ''User''
      in [Invalidate UserChange,
          ShowToast (ToastSuccess ''User Rejected''
            (userName @ '''s account has been rejected.''))])\<close>
| "onSuccess (Action (BorrowBook u b t)) data =
     (let bookTitle = orElseOpt t ''Book''
      in [Invalidate BorrowChange, ShowToast (BookBorrowSuccess bookTitle)])"
| \<open>onSuccess (Action (ApproveBorrow r t n)) data =
     (let bookTitle = orElseOpt t ''Book''; userName = orElseOpt n ''User''
      in [Invalidate BorrowChange,
          ShowToast (ToastSuccess ''Borrow Request Approved''
            (userName @ '' can now borrow "'' @ bookTitle @ ''".''))])\<close>
| \<open>onSuccess (Action (RejectBorrow r t n)) data =
     (let bookTitle = orElseOpt t ''Book''; userName = orElseOpt n ''User''
      in [Invalidate BorrowChange,
          ShowToast (ToastSuccess ''Borrow Request Rejected''
            (''Borrow request for "'' @ bookTitle @ ''" by '' @ userName @
             '' has been rejected.''))])\<close>
| "onSuccess (Action (ReturnBook r t)) data =
     (let bookTitle = orElseOpt t ''Book''
      in [Invalidate BorrowChange, ShowToast (returnToast bookTitle (payloadOf data))])"
| "onSuccess (Action (ApproveAdminRequest q v n)) data =
     (let userName = orElseOpt n (orElseOpt (field userFullName data) ''User'')
      in [Invalidate AdminChange, Invalidate UserChange,
          ShowToast (ToastSuccess ''Admin Request Approved''
            (userName @ '' has been granted admin privileges.''))])"
| "onSuccess (Action (RejectAdminRequest q v w n)) data =
     (let userName = orElseOpt n (orElseOpt (field userFullName data) ''User'')
      in [Invalidate AdminChange, Invalidate UserChange,
          ShowToast (ToastSuccess ''Admin Request Rejected''
            (''Admin request from '' @ userName @ '' has been rejected.''))])"
| \<open>onSuccess (Action (RemoveAdminPrivileges u v n)) data =
     (let userName = orElseOpt n ''User''
      in [Invalidate AdminChange, Invalidate UserChange,
          ShowToast (ToastSuccess ''Admin Privileges Removed''
            (userName @ '''s admin privileges have been removed.''))])\<close>
| \<open>onSuccess (Service (CreateReview b t)) data =
     (let bookTitle = orElseOpt t ''Book''
      in [Invalidate ReviewChange,
          ShowToast (ToastSuccess ''Review Submitted''
            (''Your review for "'' @ bookTitle @ ''" has been submitted successfully.''))])\<close>
| \<open>onSuccess (Service (UpdateReview r t)) data =
     (let bookTitle = orElseOpt t ''Book''
      in [Invalidate ReviewChange,
          ShowToast (ToastSuccess ''Review Updated''
            (''Your review for "'' @ bookTitle @ ''" has been updated successfully.''))])\<close>
| \<open>onSuccess (Service (DeleteReview r t)) data =
     (let bookTitle = orElseOpt t ''Book''
      in [Invalidate ReviewChange,
          ShowToast (ToastSuccess ''Review Deleted''
            (''Your review for "'' @ bookTitle @ ''" has been deleted successfully.''))])\<close>
| "onSuccess (Service (UpdateFineConfig amount by)) data =
     [Invalidate AdminChange, Invalidate BorrowChange,
      ShowToast (ToastSuccess ''Fine Configuration Updated''
        (''Daily fine amount has been updated to $'' @ toFixed2 amount @ '' per day.''))]"
| "onSuccess (Service SendDueReminders) data =
     (let count = reminderCount data
      in [Invalidate AdminChange, Invalidate BorrowChange,
          ShowToast (ToastSuccess ''Reminders Sent''
            (''Successfully sent '' @ string_of_nat count @ '' due soon reminder'' @
             plural (Some count) @ ''.''))])"
| "onSuccess (Service SendOverdueReminders) data =
     (let count = reminderCount data
      in [Invalidate AdminChange, Invalidate BorrowChange,
          ShowToast (ToastSuccess ''Overdue Reminders Sent''
            (''Successfully sent '' @ string_of_nat count @ '' overdue reminder'' @
             plural (Some count) @ ''.''))])"
| "onSuccess (Service (UpdateOverdueFines custom)) data =
     (let count = reminderCount data
      in [Invalidate AdminChange, Invalidate BorrowChange,
          ShowToast (ToastSuccess ''Overdue Fines Updated''
            (''Successfully updated fines for '' @ string_of_nat count @ '' overdue book'' @
             plural (Some count) @ ''.''))])"
| "onSuccess (Service GenerateAllUserRecommendations) data =
     [Invalidate RecommendationChange,
      ShowToast (ToastSuccess ''Recommendations Generated''
        (''Successfully generated '' @ string_of_number (field totalRecommendations data) @
         '' personalized recommendations for '' @ string_of_number (field totalUsers data) @
         '' users using AI-powered algorithms.''))]"
| "onSuccess (Service UpdateTrendingBooks) data =
     [Invalidate RecommendationChange,
      ShowToast (ToastSuccess ''Trending Books Updated''
        (''Successfully updated trending books. Found '' @
         string_of_number (field trendingCount data) @ '' trending book'' @
         plural (field trendingCount data) @ '' based on recent borrowing activity.''))]"
| "onSuccess (Service RefreshRecommendationCache) data =
     [Invalidate RecommendationChange,
      ShowToast (ToastSuccess ''Recommendation Cache Refreshed''
        ''Recommendation cache has been cleared and refreshed. All cached recommendations will be regenerated on next request.'')]"

subsection \<open>\<^verbatim>\<open>onError\<close>\<close>

text \<open>
  Every \<^verbatim>\<open>onError(error, variables)\<close> shows one toast whose text is
  \<^verbatim>\<open>error.message || FALLBACK\<close>. In nine hooks the fallback template ends in an
  interpolation that tests \<^verbatim>\<open>error.message.includes(...)\<close>; these are the functions
  named \<open>...Hint\<close>.
\<close>

definition deleteBookHint :: "string \<Rightarrow> string" where
  "deleteBookHint message =
     (if str_includes message ''active borrows''
      then ''Books with active borrows cannot be deleted.'' else ''Please try again.'')"

definition approveBorrowHint :: "string \<Rightarrow> string" where
  "approveBorrowHint message =
     (if str_includes message ''no longer available''
      then ''The book is no longer available.'' else ''Please try again.'')"

definition createReviewHint :: "string \<Rightarrow> string" where
  "createReviewHint message =
     (if str_includes message ''already reviewed'' then ''You have already reviewed this book.''
      else if str_includes message ''borrowed''
      then ''You must have borrowed this book to review it.'' else ''Please try again.'')"

definition updateReviewHint :: "string \<Rightarrow> string" where
  \<open>updateReviewHint message =
     (if str_includes message ''not found'' \<or> str_includes message ''permission''
      then ''Review not found or you don't have permission to edit it.''
      else ''Please try again.'')\<close>

definition deleteReviewHint :: "string \<Rightarrow> string" where
  \<open>deleteReviewHint message =
     (if str_includes message ''not found'' \<or> str_includes message ''permission''
      then ''Review not found or you don't have permission to delete it.''
      else ''Please try again.'')\<close>

definition adminRequestHint :: "string \<Rightarrow> string" where
  "adminRequestHint message =
     (if str_includes message ''already been processed''
      then ''This request has already been processed.'' else ''Please try again.'')"

definition removeAdminHint :: "string \<Rightarrow> string" where
  "removeAdminHint message =
     (if str_includes message ''not an admin'' then ''User is not an admin.''
      else if str_includes message ''not found'' then ''User not found.''
      else ''Please try again.'')"

definition fineConfigHint :: "string \<Rightarrow> string" where
  "fineConfigHint message =
     (if str_includes message ''positive number''
      then ''Fine amount must be a positive number.'' else ''Please try again.'')"

text \<open>\<^verbatim>\<open>FALLBACK\<close>, hook by hook; \<open>message\<close> is \<^verbatim>\<open>error.message\<close>.\<close>

fun fallback :: "request \<Rightarrow> string \<Rightarrow> string" where
  \<open>fallback (Action (CreateBook t)) message =
     ''Unable to create "'' @ t @ ''". Please check your input and try again.''\<close>
| \<open>fallback (Action (UpdateBook b t)) message =
     (let bookTitle = orElseOpt t (orElse b ''Book'')
      in ''Unable to update "'' @ bookTitle @ ''". Please check your input and try again.'')\<close>
| \<open>fallback (Action (DeleteBook bs t)) message =
     (let count = length bs;
          bookTitle = orElseOpt t (if count = 1 then ''book'' else ''books'')
      in ''Unable to delete '' @
         (if count = 1 then ''"'' @ bookTitle @ ''"'' else string_of_nat count @ '' books'') @
         ''. '' @ deleteBookHint message)\<close>
| \<open>fallback (Action (UpdateUserRole u r n)) message =
     ''Unable to update '' @ orElseOpt n ''User'' @ '''s role. Please try again.''\<close>
| \<open>fallback (Action (UpdateUserStatus u s n)) message =
     ''Unable to update '' @ orElseOpt n ''User'' @ '''s status. Please try again.''\<close>
| \<open>fallback (Action (ApproveUser u n)) message =
     ''Unable to approve '' @ orElseOpt n ''User'' @ '''s account. Please try again.''\<close>
| \<open>fallback (Action (RejectUser u n)) message =
     ''Unable to reject '' @ orElseOpt n ''User'' @ '''s account. Please try again.''\<close>
| \<open>fallback (Action (BorrowBook u b t)) message =
     ''Unable to request "'' @ orElseOpt t ''book'' @ ''". Please try again.''\<close>
| \<open>fallback (Action (ApproveBorrow r t n)) message =
     ''Unable to approve borrow request for "'' @ orElseOpt t ''book'' @ ''". '' @
     approveBorrowHint message\<close>
| \<open>fallback (Action (RejectBorrow r t n)) message =
     ''Unable to reject borrow request for "'' @ orElseOpt t ''book'' @
     ''". Please try again.''\<close>
| \<open>fallback (Action (ReturnBook r t)) message =
     ''Unable to return "'' @ orElseOpt t ''book'' @ ''". Please try again.''\<close>
| "fallback (Action (ApproveAdminRequest q v n)) message =
     ''Unable to approve admin request for '' @ orElseOpt n ''User'' @ ''. '' @
     adminRequestHint message"
| "fallback (Action (RejectAdminRequest q v w n)) message =
     ''Unable to reject admin request for '' @ orElseOpt n ''User'' @ ''. '' @
     adminRequestHint message"
| "fallback (Action (RemoveAdminPrivileges u v n)) message =
     ''Unable to remove admin privileges from '' @ orElseOpt n ''User'' @ ''. '' @
     removeAdminHint message"
| \<open>fallback (Service (CreateReview b t)) message =
     ''Unable to submit review for "'' @ orElseOpt t ''book'' @ ''". '' @
     createReviewHint message\<close>
| \<open>fallback (Service (UpdateReview r t)) message =
     ''Unable to update review for "'' @ orElseOpt t ''book'' @ ''". '' @
     updateReviewHint message\<close>
| \<open>fallback (Service (DeleteReview r t)) message =
     ''Unable to delete review for "'' @ orElseOpt t ''book'' @ ''". '' @
     deleteReviewHint message\<close>
| "fallback (Service (UpdateFineConfig amount by)) message =
     ''Unable to update fine configuration. '' @ fineConfigHint message"
| "fallback (Service SendDueReminders) message =
     ''Unable to send due soon reminders. Please try again.''"
| "fallback (Service SendOverdueReminders) message =
     ''Unable to send overdue reminders. Please try again.''"
| "fallback (Service (UpdateOverdueFines custom)) message =
     ''Unable to update overdue fines. Please try again.''"
| "fallback (Service GenerateAllUserRecommendations) message =
     ''Unable to generate recommendations. Please try again.''"
| "fallback (Service UpdateTrendingBooks) message =
     ''Unable to update trending books. Please try again.''"
| "fallback (Service RefreshRecommendationCache) message =
     ''Unable to refresh recommendation cache. Please try again.''"

text \<open>The toast call of each \<^verbatim>\<open>onError\<close>, with its title.\<close>

fun errorToast :: "request \<Rightarrow> string \<Rightarrow> toast" where
  "errorToast (Action (CreateBook t)) text = ToastError ''Creation Failed'' text"
| "errorToast (Action (UpdateBook b t)) text = ToastError ''Update Failed'' text"
| "errorToast (Action (DeleteBook bs t)) text = ToastError ''Deletion Failed'' text"
| "errorToast (Action (UpdateUserRole u r n)) text = ToastError ''Role Update Failed'' text"
| "errorToast (Action (UpdateUserStatus u s n)) text = ToastError ''Status Update Failed'' text"
| "errorToast (Action (ApproveUser u n)) text = ToastError ''Approval Failed'' text"
| "errorToast (Action (RejectUser u n)) text = ToastError ''Rejection Failed'' text"
| "errorToast (Action (BorrowBook u b t)) text = BookBorrowError text"
| "errorToast (Action (ApproveBorrow r t n)) text = ToastError ''Approval Failed'' text"
| "errorToast (Action (RejectBorrow r t n)) text = ToastError ''Rejection Failed'' text"
| "errorToast (Action (ReturnBook r t)) text = BookReturnError text"
| "errorToast (Action (ApproveAdminRequest q v n)) text = ToastError ''Approval Failed'' text"
| "errorToast (Action (RejectAdminRequest q v w n)) text = ToastError ''Rejection Failed'' text"
| "errorToast (Action (RemoveAdminPrivileges u v n)) text = ToastError ''Removal Failed'' text"
| "errorToast (Service (CreateReview b t)) text = ToastError ''Review Failed'' text"
| "errorToast (Service (UpdateReview r t)) text = ToastError ''Update Failed'' text"
| "errorToast (Service (DeleteReview r t)) text = ToastError ''Deletion Failed'' text"
| "errorToast (Service (UpdateFineConfig amount by)) text = ToastError ''Update Failed'' text"
| "errorToast (Service SendDueReminders) text = ToastError ''Reminder Failed'' text"
| "errorToast (Service SendOverdueReminders) text = ToastError ''Reminder Failed'' text"
| "errorToast (Service (UpdateOverdueFines custom)) text = ToastError ''Update Failed'' text"
| "errorToast (Service GenerateAllUserRecommendations) text =
     ToastError ''Failed to Generate Recommendations'' text"
| "errorToast (Service UpdateTrendingBooks) text =
     ToastError ''Failed to Update Trending Books'' text"
| "errorToast (Service RefreshRecommendationCache) text =
     ToastError ''Failed to Refresh Cache'' text"

definition onError :: "request \<Rightarrow> string \<Rightarrow> effect list" where
  "onError req message = [ShowToast (errorToast req (orElse message (fallback req message)))]"

subsection \<open>Running a mutation\<close>

text \<open>
  The state the callbacks act on: the query cache and the toasts shown so far. The
  library runs \<^verbatim>\<open>mutationFn\<close>, then \<^verbatim>\<open>onSuccess\<close> with the returned value or
  \<^verbatim>\<open>onError\<close> with the thrown error.
\<close>

record 'v state =
  cache :: "'v queryCache"
  toasts :: "toast list"

fun exec :: "invalidationRule \<Rightarrow> effect \<Rightarrow> 'v state \<Rightarrow> 'v state" where
  "exec R (Invalidate i) st = st\<lparr>cache := invalidateAfter R i (cache st)\<rparr>"
| "exec R (ShowToast t) st = st\<lparr>toasts := toasts st @ [t]\<rparr>"

definition run :: "invalidationRule \<Rightarrow> effect list \<Rightarrow> 'v state \<Rightarrow> 'v state" where
  "run R effects st = foldl (\<lambda>acc e. exec R e acc) st effects"

definition reconcile :: "invalidationRule \<Rightarrow> request \<Rightarrow> string + returned \<Rightarrow> 'v state \<Rightarrow> 'v state" where
  "reconcile R req outcome st =
     (case outcome of
        Inl message \<Rightarrow> run R (onError req message) st
      | Inr data \<Rightarrow> run R (onSuccess req data) st)"

definition runMutation :: "invalidationRule \<Rightarrow> call \<Rightarrow> 'v state \<Rightarrow> 'v state" where
  "runMutation R c st = reconcile R (requestOf c) (mutationFn c) st"

section \<open>The components that call the hooks\<close>

text \<open>
  What a handler does, step by step: the effects of the hook's callbacks, and the
  calls the component makes itself.
\<close>

datatype step =
    Callback effect  \<comment> \<open>an effect of \<^verbatim>\<open>onSuccess\<close> or \<^verbatim>\<open>onError\<close> of the hook\<close>
  | Toast toast  \<comment> \<open>\<^verbatim>\<open>showToast\<close> called by the component\<close>
  | Navigate string  \<comment> \<open>\<^verbatim>\<open>router.push(path)\<close>\<close>
  | InvalidateAllQueries  \<comment> \<open>\<^verbatim>\<open>invalidateAllQueries(queryClient)\<close>\<close>
  | ClearCache  \<comment> \<open>\<^verbatim>\<open>queryClient.clear()\<close>\<close>
  | SetCookie string  \<comment> \<open>\<^verbatim>\<open>document.cookie = ...\<close>\<close>
  | SignOut  \<comment> \<open>\<^verbatim>\<open>await signOut(...)\<close>\<close>
  | ConsoleError string  \<comment> \<open>\<^verbatim>\<open>console.error(...)\<close>\<close>
  | SetIsLoggingOut bool

text \<open>
  A handler runs its steps at once, or hands some to \<^verbatim>\<open>setTimeout(f, delay)\<close>; the
  event loop runs \<open>f\<close> after the current task, timers with a shorter delay first.
\<close>

datatype instr = Now step | SetTimeout nat "step list"

fun immediate :: "instr list \<Rightarrow> step list" where
  "immediate [] = []"
| "immediate (Now s # is) = s # immediate is"
| "immediate (SetTimeout delay f # is) = immediate is"

fun timers :: "instr list \<Rightarrow> (nat \<times> step list) list" where
  "timers [] = []"
| "timers (Now s # is) = timers is"
| "timers (SetTimeout delay f # is) = (delay, f) # timers is"

definition runTask :: "instr list \<Rightarrow> step list" where
  "runTask is = immediate is @ concat (map snd (sort_key fst (timers is)))"

text \<open>
  \<^verbatim>\<open>mutation.mutate(variables, { onSuccess, onError })\<close>: the library runs the callbacks
  given to \<^verbatim>\<open>useMutation\<close> first, then those given to \<^verbatim>\<open>mutate\<close>.
\<close>

definition mutate :: "call \<Rightarrow> instr list \<Rightarrow> (string \<Rightarrow> instr list) \<Rightarrow> instr list" where
  "mutate c siteOnSuccess siteOnError =
     (case mutationFn c of
        Inr data \<Rightarrow> map (\<lambda>e. Now (Callback e)) (onSuccess (requestOf c) data) @ siteOnSuccess
      | Inl message \<Rightarrow>
          map (\<lambda>e. Now (Callback e)) (onError (requestOf c) message) @ siteOnError message)"

text \<open>
  \<^verbatim>\<open>handleBorrowBook\<close> of \<^verbatim>\<open>components/BorrowBook.tsx\<close>, which navigates 200 ms after
  the success, and of the second copy of the component, which navigates at once.
\<close>

definition handleBorrowBook :: "bool \<Rightarrow> string \<Rightarrow> string \<Rightarrow> actionReply \<Rightarrow> instr list" where
  "handleBorrowBook isEligible userId bookId reply =
     (if \<not> isEligible then []
      else mutate (ActionCall (BorrowBook userId bookId None) reply)
             [SetTimeout 200 [Navigate ''/my-profile'']]
             (\<lambda>message. [Now (ConsoleError ''[BorrowBook] Mutation error:'')]))"

definition handleBorrowBookAtOnce :: "bool \<Rightarrow> string \<Rightarrow> string \<Rightarrow> actionReply \<Rightarrow> instr list" where
  "handleBorrowBookAtOnce isEligible userId bookId reply =
     (if \<not> isEligible then []
      else mutate (ActionCall (BorrowBook userId bookId None) reply)
             [Now (Navigate ''/my-profile'')]
             (\<lambda>message. [Now (ConsoleError ''[BorrowBook] Mutation error:'')]))"

text \<open>
  \<^verbatim>\<open>handleLogout\<close> of \<^verbatim>\<open>LogoutButton\<close> and of \<^verbatim>\<open>ProfileDropdown\<close>;
  \<open>signOutOk\<close> tells whether the awaited \<^verbatim>\<open>signOut\<close> resolves or throws into the
  \<^verbatim>\<open>catch\<close> block.
\<close>

definition logoutFailed :: "instr list" where
  "logoutFailed =
     [Now (ConsoleError ''Logout error:''), Now (SetIsLoggingOut False),
      Now (Toast (ToastError ''Logout Failed''
        ''There was an error logging out. Please try again.''))]"

definition logoutButtonHandleLogout :: "bool \<Rightarrow> bool \<Rightarrow> instr list" where
  "logoutButtonHandleLogout isLoggingOut signOutOk =
     (if isLoggingOut then []
      else [Now (SetIsLoggingOut True), Now (Toast AuthLogoutSuccess),
            Now InvalidateAllQueries, Now ClearCache, Now SignOut] @
           (if signOutOk then [] else logoutFailed))"

definition profileDropdownHandleLogout :: "bool \<Rightarrow> bool \<Rightarrow> instr list" where
  "profileDropdownHandleLogout isLoggingOut signOutOk =
     (if isLoggingOut then []
      else [Now (SetIsLoggingOut True), Now (Toast AuthLogoutSuccess),
            Now (SetCookie ''logout-in-progress=true; path=/; max-age=10; SameSite=Lax''),
            Now SignOut] @
           (if signOutOk then [SetTimeout 500 [ClearCache]] else logoutFailed))"

section \<open>Notions used by the statements\<close>

text \<open>The cache in which the entries under one of the keys \<open>ps\<close> have become stale.\<close>

definition markedBy :: "queryKey list \<Rightarrow> 'v queryCache \<Rightarrow> 'v queryCache" where
  "markedBy ps c =
     map (\<lambda>(k, e). (k, e\<lparr>stale := stale e \<or> list_ex (\<lambda>p. prefix p k) ps\<rparr>)) c"

fun invalidatedKeys :: "invalidationRule \<Rightarrow> effect list \<Rightarrow> queryKey list" where
  "invalidatedKeys R [] = []"
| "invalidatedKeys R (Invalidate i # es) = R i @ invalidatedKeys R es"
| "invalidatedKeys R (ShowToast t # es) = invalidatedKeys R es"

fun shown :: "effect list \<Rightarrow> toast list" where
  "shown [] = []"
| "shown (Invalidate i # es) = shown es"
| "shown (ShowToast t # es) = t # shown es"

text \<open>
  The message the service gave for a failure, when it gave one, and the text shown when
  it gave none: the default of \<^verbatim>\<open>mutationFn\<close> where the result object reported the
  failure, the fallback of \<^verbatim>\<open>onError\<close> where the call threw.
\<close>

fun present :: "string \<Rightarrow> string option" where
  "present m = (if m = [] then None else Some m)"

fun serviceMessage :: "call \<Rightarrow> string option" where
  "serviceMessage (ActionCall a (ActionThrows m)) = present m"
| "serviceMessage (ActionCall a (ActionResult success msg d)) =
     (case msg of None \<Rightarrow> None | Some m \<Rightarrow> present m)"
| "serviceMessage (ServiceCall s (ServiceThrows m)) = present m"
| "serviceMessage (ServiceCall s (ServiceValue v)) = None"


text \<open>Where the value returned by a checking hook comes from.\<close>

fun echoesRequest :: "actionRequest \<Rightarrow> bool" where
  "echoesRequest (UpdateUserRole u r n) = True"
| "echoesRequest (UpdateUserStatus u s n) = True"
| "echoesRequest (ApproveUser u n) = True"
| "echoesRequest (RejectUser u n) = True"
| "echoesRequest (ApproveBorrow r t n) = True"
| "echoesRequest (RejectBorrow r t n) = True"
| "echoesRequest (RemoveAdminPrivileges u v n) = True"
| "echoesRequest other = False"

fun returnsServiceData :: "actionRequest \<Rightarrow> bool" where
  "returnsServiceData (CreateBook t) = True"
| "returnsServiceData (UpdateBook b t) = True"
| "returnsServiceData (BorrowBook u b t) = True"
| "returnsServiceData (ReturnBook r t) = True"
| "returnsServiceData (ApproveAdminRequest q v n) = True"
| "returnsServiceData (RejectAdminRequest q v w n) = True"
| "returnsServiceData other = False"

text \<open>Order in a trace: no \<open>P\<close> step after a \<open>Q\<close> step; every \<open>Q\<close> step after a \<open>P\<close> step.\<close>

fun allBefore :: "('a \<Rightarrow> bool) \<Rightarrow> ('a \<Rightarrow> bool) \<Rightarrow> 'a list \<Rightarrow> bool" where
  "allBefore P Q [] = True"
| "allBefore P Q (x # xs) = ((if Q x then \<not> list_ex P xs else True) \<and> allBefore P Q xs)"

fun precededBy :: "('a \<Rightarrow> bool) \<Rightarrow> ('a \<Rightarrow> bool) \<Rightarrow> 'a list \<Rightarrow> bool" where
  "precededBy P Q [] = True"
| "precededBy P Q (x # xs) = (if P x then True else \<not> Q x \<and> precededBy P Q xs)"

fun isReconcile :: "step \<Rightarrow> bool" where
  "isReconcile (Callback (Invalidate i)) = True"
| "isReconcile other = False"

fun isNavigate :: "step \<Rightarrow> bool" where
  "isNavigate (Navigate path) = True"
| "isNavigate other = False"

fun isLogoutNotice :: "step \<Rightarrow> bool" where
  "isLogoutNotice (Toast AuthLogoutSuccess) = True"
| "isLogoutNotice other = False"

fun isClear :: "step \<Rightarrow> bool" where
  "isClear ClearCache = True"
| "isClear other = False"



section \<open>The read cache\<close>

text \<open>
  Modelled from the spec: the read side of the repository (the query hooks of
  \<^verbatim>\<open>hooks/useQueries\<close> and the query client they configure) is not among the
  sources. Following the Read Cache contract and the concurrency model of the spec, the
  cache holds its entries, the fingerprints that have a fetch in flight, and the
  invocations of a fetcher so far, in order.
\<close>

record 'v readCache =
  entries :: "'v queryCache"
  pending :: "queryKey list"
  invoked :: "queryKey list"

text \<open>
  Modelled from the spec: the rule that only one fetch per stale fingerprint is issued
  at a time and that concurrent readers await the same pending fetch. The
  fetcher is invoked unless a fetch of the fingerprint is already in flight.
\<close>

definition startFetch :: "queryKey \<Rightarrow> 'v readCache \<Rightarrow> 'v readCache" where
  "startFetch fp rc =
     (if fp \<in> set (pending rc) then rc
      else rc\<lparr>pending := fp # pending rc, invoked := invoked rc @ [fp]\<rparr>)"

text \<open>
  Modelled from the spec: \<^verbatim>\<open>read(fingerprint, fetcher)\<close> returns the cached value
  immediately if present and not stale; if stale or absent, it triggers the fetcher
  asynchronously and returns the last known value in the interim. The result is the
  value handed to the caller at once (\<open>None\<close> when there is no entry) and the cache
  after the call.
\<close>

definition read :: "queryKey \<Rightarrow> 'v readCache \<Rightarrow> 'v option \<times> 'v readCache" where
  "read fp rc =
     (case lookup (entries rc) fp of
        Some e \<Rightarrow> if stale e then (Some (val e), startFetch fp rc) else (Some (val e), rc)
      | None \<Rightarrow> (None, startFetch fp rc))"

text \<open>
  Modelled from the spec: \<open>n\<close> reads of one fingerprint in the single-threaded event
  loop, one after the other, before any fetch resolves.
\<close>

fun reads :: "nat \<Rightarrow> queryKey \<Rightarrow> 'v readCache \<Rightarrow> 'v option list \<times> 'v readCache" where
  "reads 0 fp rc = ([], rc)"
| "reads (Suc n) fp rc =
     (let (v, rc') = read fp rc; (vs, rc'') = reads n fp rc' in (v # vs, rc''))"

text \<open>
  Modelled from the spec: an entry is never mutated partially, always replaced
  wholesale; \<open>store\<close> replaces the entry of a fingerprint, or adds it.
\<close>

definition store :: "queryKey \<Rightarrow> 'v entry \<Rightarrow> 'v queryCache \<Rightarrow> 'v queryCache" where
  "store fp e c =
     (case lookup c fp of
        None \<Rightarrow> c @ [(fp, e)]
      | Some old \<Rightarrow> map (\<lambda>(k, x). if k = fp then (k, e) else (k, x)) c)"

text \<open>
  Modelled from the spec: \<^verbatim>\<open>set(fingerprint, value)\<close>, the direct overwrite of a mutation, which
  clears staleness and resets the timestamp, at the time \<open>now\<close>.
\<close>

definition setEntry :: "queryKey \<Rightarrow> 'v \<Rightarrow> nat \<Rightarrow> 'v readCache \<Rightarrow> 'v readCache" where
  "setEntry fp v now rc =
     rc\<lparr>entries := store fp \<lparr>val = v, stale = False, lastFetchedAt = now\<rparr> (entries rc)\<rparr>"

text \<open>
  Modelled from the spec: a fetch resolves with a value and the \<^verbatim>\<open>lastFetchedAt\<close> it
  carries, and replaces the entry, except that a write with an earlier
  \<^verbatim>\<open>lastFetchedAt\<close> than the entry's current value is dropped. The
  fetch is no longer in flight either way.
\<close>

definition resolveFetch :: "queryKey \<Rightarrow> 'v \<Rightarrow> nat \<Rightarrow> 'v readCache \<Rightarrow> 'v readCache" where
  "resolveFetch fp v fetchedAt rc =
     (let settled = rc\<lparr>pending := removeAll fp (pending rc)\<rparr>;
          fresh = \<lparr>val = v, stale = False, lastFetchedAt = fetchedAt\<rparr>
      in case lookup (entries rc) fp of
           None \<Rightarrow> settled\<lparr>entries := store fp fresh (entries rc)\<rparr>
         | Some e \<Rightarrow>
             if fetchedAt < lastFetchedAt e then settled
             else settled\<lparr>entries := store fp fresh (entries rc)\<rparr>)"

subsection \<open>Concrete inputs\<close>

definition noPayload :: payload where
  "noPayload =
     \<lparr>title = None, isOverdue = False, daysOverdue = None, fineAmount = None,
      userFullName = None, results = None, totalRecommendations = None, totalUsers = None,
      trendingCount = None\<rparr>"

definition oldBook :: payload where
  "oldBook = noPayload\<lparr>title := Some ''Old Title''\<rparr>"

definition freshBook :: payload where
  "freshBook = noPayload\<lparr>title := Some ''Updated Book Title''\<rparr>"

definition exampleState :: "payload state" where
  "exampleState =
     \<lparr>cache =
        [([''books'', ''book-123''], \<lparr>val = oldBook, stale = False, lastFetchedAt = 1\<rparr>),
         ([''users''], \<lparr>val = noPayload, stale = False, lastFetchedAt = 2\<rparr>),
         ([''fine-config''], \<lparr>val = noPayload, stale = True, lastFetchedAt = 3\<rparr>)],
      toasts = []\<rparr>"

definition exampleUpdate :: call where
  "exampleUpdate =
     ActionCall (UpdateBook ''book-123'' (Some ''Updated Book Title''))
       (ActionResult True None (Some freshBook))"

definition processedReply :: call where
  "processedReply =
     ActionCall (ApproveAdminRequest ''request-123'' ''admin-user-id'' (Some ''John Doe''))
       (ActionResult False (Some ''This request has already been processed'') None)"

definition unexplainedFailure :: call where
  "unexplainedFailure = ActionCall (CreateBook ''New Book'') (ActionResult False None None)"

definition promoteCall :: "payload option \<Rightarrow> call" where
  "promoteCall d =
     ActionCall (UpdateUserRole ''user-123'' ADMIN (Some ''John Doe'')) (ActionResult True None d)"

definition activeBorrowsFailure :: call where
  "activeBorrowsFailure =
     ActionCall (DeleteBook [''book-123''] (Some ''Book Title''))
       (ActionResult False (Some ''Cannot delete books with active borrows'') None)"

definition emptyErrorReview :: call where
  "emptyErrorReview = ServiceCall (CreateReview ''book-123'' None) (ServiceThrows [])"


definition reviewNotFound :: call where
  "reviewNotFound = ServiceCall (DeleteReview ''review-123'' None) (ServiceThrows ''Review not found'')"

definition exampleReadCache :: "payload readCache" where
  "exampleReadCache =
     \<lparr>entries =
        [([''books'', ''book-123''], \<lparr>val = oldBook, stale = True, lastFetchedAt = 1\<rparr>),
         ([''users''], \<lparr>val = noPayload, stale = False, lastFetchedAt = 2\<rparr>)],
      pending = [], invoked = []\<rparr>"

section \<open>Properties\<close>

subsection \<open>Invalidation only marks entries\<close>

lemma invalidateQueries_markedBy: "invalidateQueries key c = markedBy [key] c"
  by (induction c) (auto simp: invalidateQueries_def markedBy_def)

lemma markedBy_markedBy: "markedBy ps (markedBy qs c) = markedBy (qs @ ps) c"
  by (induction c) (auto simp: markedBy_def)

lemma markedBy_Nil: "markedBy [] c = c"
  by (induction c) (auto simp: markedBy_def)

lemma markedBy_twice: "markedBy ps (markedBy ps c) = markedBy ps c"
  by (induction c) (auto simp: markedBy_def)

lemma foldl_invalidate: "foldl (\<lambda>acc key. invalidateQueries key acc) c ps = markedBy ps c"
proof (induction ps arbitrary: c)
  case Nil
  show ?case by (simp add: markedBy_Nil)
next
  case (Cons p ps)
  show ?case using Cons.IH [of "invalidateQueries p c"]
    by (simp add: invalidateQueries_markedBy [of p c] markedBy_markedBy)
qed

lemma invalidateAfter_markedBy: "invalidateAfter R i c = markedBy (R i) c"
  by (simp add: invalidateAfter_def foldl_invalidate)

lemma foldl_exec_cache:
  "cache (foldl (\<lambda>acc e. exec R e acc) st es) = markedBy (invalidatedKeys R es) (cache st)"
proof (induction es arbitrary: st)
  case Nil
  show ?case by (simp add: markedBy_Nil)
next
  case (Cons e es)
  show ?case by (cases e) (simp_all add: Cons.IH invalidateAfter_markedBy markedBy_markedBy)
qed

lemma foldl_exec_toasts:
  "toasts (foldl (\<lambda>acc e. exec R e acc) st es) = toasts st @ shown es"
proof (induction es arbitrary: st)
  case Nil
  show ?case by simp
next
  case (Cons e es)
  show ?case by (cases e) (simp_all add: Cons.IH)
qed

lemma run_cache: "cache (run R es st) = markedBy (invalidatedKeys R es) (cache st)"
  by (simp add: run_def foldl_exec_cache)

lemma run_toasts: "toasts (run R es st) = toasts st @ shown es"
  by (simp add: run_def foldl_exec_toasts)

lemma written_markedBy:
  "map (\<lambda>(k, e). (k, val e, lastFetchedAt e)) (markedBy ps c) =
   map (\<lambda>(k, e). (k, val e, lastFetchedAt e)) c"
  by (induction c) (auto simp: markedBy_def)

lemma stale_markedBy:
  "list_all2 (\<lambda>(k, e) (k', e'). k' = k \<and> (stale e' \<or> \<not> stale e)) c (markedBy ps c)"
  by (induction c) (auto simp: markedBy_def)

subsection \<open>The callbacks\<close>

lemma shown_onError: "shown (onError req m) = [errorToast req (orElse m (fallback req m))]"
  by (simp add: onError_def)

lemma invalidatedKeys_onError: "invalidatedKeys R (onError req m) = []"
  by (simp add: onError_def)


lemma errorToast_shape:
  "isFailureToast (errorToast req body) \<and> description (errorToast req body) = body"
  by (cases "(req, body)" rule: errorToast.cases) simp_all

lemma failureDefault_nonempty: "failureDefault a \<noteq> []"
  by (cases a) simp_all


lemma processedReply_toasts:
  "toasts (runMutation commentRule processedReply exampleState) =
     [ToastError ''Approval Failed'' ''This request has already been processed'']"
  by (simp add: processedReply_def runMutation_def reconcile_def run_def onError_def
      orElseOpt_def orElse_def exampleState_def)

subsection \<open>Generic messages\<close>


lemma hints_empty:
  "deleteBookHint [] = ''Please try again.''"
  "approveBorrowHint [] = ''Please try again.''"
  "createReviewHint [] = ''Please try again.''"
  "updateReviewHint [] = ''Please try again.''"
  "deleteReviewHint [] = ''Please try again.''"
  "adminRequestHint [] = ''Please try again.''"
  "removeAdminHint [] = ''Please try again.''"
  "fineConfigHint [] = ''Please try again.''"
  by (simp_all add: deleteBookHint_def approveBorrowHint_def createReviewHint_def
      updateReviewHint_def deleteReviewHint_def adminRequestHint_def removeAdminHint_def
      fineConfigHint_def str_includes_def)



subsection \<open>The read cache\<close>

lemma lookup_store: "lookup (store fp e c) fp = Some e"
proof (cases "lookup c fp")
  case None
  have "lookup (c @ [(fp, e)]) fp = Some e" using None
    by (induction c) (auto split: if_splits)
  then show ?thesis using None by (simp add: store_def)
next
  case (Some old)
  then have "lookup (map (\<lambda>(k, x). if k = fp then (k, e) else (k, x)) c) fp = Some e"
    by (induction c) (auto split: if_splits)
  then show ?thesis using Some by (simp add: store_def)
qed

lemma reads_pending:
  "lookup (entries rc) fp = Some e \<Longrightarrow> stale e \<Longrightarrow> fp \<in> set (pending rc) \<Longrightarrow>
   reads n fp rc = (replicate n (Some (val e)), rc)"
  by (induction n) (simp_all add: read_def startFetch_def)

lemma fresh_write_applied:
  "lookup (entries rc) fp = Some e \<Longrightarrow> \<not> fetchedAt < lastFetchedAt e \<Longrightarrow>
   lookup (entries (resolveFetch fp v fetchedAt rc)) fp =
     Some \<lparr>val = v, stale = False, lastFetchedAt = fetchedAt\<rparr>"
  by (simp add: resolveFetch_def Let_def lookup_store)

subsection \<open>The claims\<close>

text \<open>
  C1 does not hold as stated. After a successful \<^verbatim>\<open>useUpdateBook\<close> whose service
  returned \<open>freshBook\<close>, the entry of the updated book still holds the old value, and it
  has been marked stale: \<^verbatim>\<open>onSuccess\<close> calls \<^verbatim>\<open>invalidateAfterBookChange\<close> and
  shows a toast, and writes nothing.
\<close>

theorem updateBook_entry_not_overwritten:
  "mutationFn exampleUpdate = Inr (RData (Some freshBook)) \<and>
   lookup (cache (runMutation commentRule exampleUpdate exampleState)) [''books'', ''book-123'']
     = Some \<lparr>val = oldBook, stale = True, lastFetchedAt = 1\<rparr> \<and>
   oldBook \<noteq> freshBook"
  by (simp add: exampleUpdate_def exampleState_def runMutation_def reconcile_def run_def
      Let_def invalidateAfter_def invalidateQueries_def oldBook_def freshBook_def noPayload_def)

text \<open>
  C1, amended: for every successful mutation and every rule table, reconciliation only
  marks entries stale. The entries whose key starts with a key of a helper that the
  hook's \<^verbatim>\<open>onSuccess\<close> calls become stale, those of the mutated entity like any other;
  every key, value and timestamp stays as it was, and no entry is overwritten.
\<close>

theorem success_only_marks_stale:
  assumes "mutationFn c = Inr d"
  shows "cache (runMutation R c st) =
           map (\<lambda>(k, e). (k, e\<lparr>stale := stale e \<or>
                  list_ex (\<lambda>p. prefix p k) (invalidatedKeys R (onSuccess (requestOf c) d))\<rparr>))
               (cache st)"
  using assms by (simp add: runMutation_def reconcile_def run_cache markedBy_def)

text \<open>C1, amended, at the update of \<^verbatim>\<open>book-123\<close>.\<close>

theorem success_only_marks_stale_witness:
  "mutationFn exampleUpdate = Inr (RData (Some freshBook)) \<and>
   cache (runMutation commentRule exampleUpdate exampleState) =
     [([''books'', ''book-123''], \<lparr>val = oldBook, stale = True, lastFetchedAt = 1\<rparr>),
      ([''users''], \<lparr>val = noPayload, stale = False, lastFetchedAt = 2\<rparr>),
      ([''fine-config''], \<lparr>val = noPayload, stale = True, lastFetchedAt = 3\<rparr>)]"
  using success_only_marks_stale [of exampleUpdate "RData (Some freshBook)" commentRule exampleState]
  by (simp add: exampleUpdate_def exampleState_def Let_def)

text \<open>
  C2: when \<^verbatim>\<open>mutationFn\<close> throws, the cache after \<^verbatim>\<open>onError\<close> is the cache before the
  mutation, and the one effect is a single failure toast, whose text is
  \<^verbatim>\<open>error.message || FALLBACK\<close>.
\<close>

theorem failure_leaves_cache_untouched:
  assumes "mutationFn c = Inl message"
  shows "cache (runMutation R c st) = cache st \<and>
         (\<exists>t. toasts (runMutation R c st) = toasts st @ [t] \<and> isFailureToast t \<and>
              description t = orElse message (fallback (requestOf c) message))"
  using assms errorToast_shape
  by (simp add: runMutation_def reconcile_def run_cache run_toasts shown_onError
      invalidatedKeys_onError markedBy_Nil)

text \<open>
  C2 at an admin request that the service rejects with
  \<^verbatim>\<open>This request has already been processed\<close>.
\<close>

theorem failure_leaves_cache_untouched_witness:
  "mutationFn processedReply = Inl ''This request has already been processed'' \<and>
   cache (runMutation commentRule processedReply exampleState) = cache exampleState \<and>
   toasts (runMutation commentRule processedReply exampleState) =
     [ToastError ''Approval Failed'' ''This request has already been processed'']"
proof -
  have m: "mutationFn processedReply = Inl ''This request has already been processed''"
    by (simp add: processedReply_def orElseOpt_def orElse_def)
  show ?thesis
    using failure_leaves_cache_untouched [OF m, of commentRule exampleState] m
      processedReply_toasts
    by simp
qed

text \<open>
  C3 does not hold as stated. \<^verbatim>\<open>useUpdateUserRole\<close> returns \<^verbatim>\<open>{ userId, role }\<close>,
  built from the variables of the request, whatever the service sent back.
\<close>

theorem updateUserRole_returns_request_echo:
  "mutationFn (promoteCall (Some freshBook)) = Inr (RUserRole ''user-123'' ADMIN) \<and>
   mutationFn (promoteCall None) = Inr (RUserRole ''user-123'' ADMIN)"
  by (simp add: promoteCall_def)

text \<open>
  C3, amended: on success \<^verbatim>\<open>mutationFn\<close> returns the data of the service in
  \<^verbatim>\<open>useCreateBook\<close>, \<^verbatim>\<open>useUpdateBook\<close>, \<^verbatim>\<open>useBorrowBook\<close>, \<^verbatim>\<open>useReturnBook\<close>,
  \<^verbatim>\<open>useApproveAdminRequest\<close>, \<^verbatim>\<open>useRejectAdminRequest\<close> and in the ten service hooks;
  in \<^verbatim>\<open>useUpdateUserRole\<close>, \<^verbatim>\<open>useUpdateUserStatus\<close>, \<^verbatim>\<open>useApproveUser\<close>,
  \<^verbatim>\<open>useRejectUser\<close>, \<^verbatim>\<open>useApproveBorrow\<close>, \<^verbatim>\<open>useRejectBorrow\<close> and
  \<^verbatim>\<open>useRemoveAdminPrivileges\<close> it returns a value that does not depend on what the
  service sent, and in \<^verbatim>\<open>useDeleteBook\<close> the \<^verbatim>\<open>bookIds\<close> of the request with the
  message of the service. Reconciliation writes none of these values: every entry keeps
  its key, value and timestamp, and no staleness flag is cleared.
\<close>

theorem returned_value_and_no_write:
  "(if echoesRequest a
    then mutationFn (ActionCall a (ActionResult True msg d)) =
         mutationFn (ActionCall a (ActionResult True msg' d'))
    else if returnsServiceData a
    then mutationFn (ActionCall a (ActionResult True msg d)) = Inr (RData d)
    else \<exists>bs t. a = DeleteBook bs t \<and>
         mutationFn (ActionCall a (ActionResult True msg d)) = Inr (RDeleted bs msg)) \<and>
   mutationFn (ServiceCall s (ServiceValue v)) = Inr (RValue v) \<and>
   map (\<lambda>(k, e). (k, val e, lastFetchedAt e)) (cache (runMutation R c st)) =
     map (\<lambda>(k, e). (k, val e, lastFetchedAt e)) (cache st) \<and>
   list_all2 (\<lambda>(k, e) (k', e'). k' = k \<and> (stale e' \<or> \<not> stale e))
     (cache st) (cache (runMutation R c st))"
proof -
  have ret: "(if echoesRequest a
    then mutationFn (ActionCall a (ActionResult True msg d)) =
         mutationFn (ActionCall a (ActionResult True msg' d'))
    else if returnsServiceData a
    then mutationFn (ActionCall a (ActionResult True msg d)) = Inr (RData d)
    else \<exists>bs t. a = DeleteBook bs t \<and>
         mutationFn (ActionCall a (ActionResult True msg d)) = Inr (RDeleted bs msg))"
    by (cases a) simp_all
  have "\<exists>ps. cache (runMutation R c st) = markedBy ps (cache st)"
    by (cases "mutationFn c") (auto simp: runMutation_def reconcile_def run_cache)
  then obtain ps where ps: "cache (runMutation R c st) = markedBy ps (cache st)" ..
  show ?thesis using ret by (simp add: ps written_markedBy stale_markedBy)
qed

text \<open>
  C3, amended, at the promotion of \<^verbatim>\<open>user-123\<close> and at the update of
  \<^verbatim>\<open>book-123\<close>, where the entry that was stale before stays stale.
\<close>

theorem returned_value_and_no_write_witness:
  "mutationFn (promoteCall (Some freshBook)) = mutationFn (promoteCall None) \<and>
   mutationFn exampleUpdate = Inr (RData (Some freshBook)) \<and>
   map (\<lambda>(k, e). (k, val e, lastFetchedAt e))
       (cache (runMutation commentRule exampleUpdate exampleState)) =
     [([''books'', ''book-123''], oldBook, 1), ([''users''], noPayload, 2),
      ([''fine-config''], noPayload, 3)] \<and>
   list_all2 (\<lambda>(k, e) (k', e'). k' = k \<and> (stale e' \<or> \<not> stale e))
     (cache exampleState) (cache (runMutation commentRule exampleUpdate exampleState))"
  using returned_value_and_no_write [of "UpdateUserRole ''user-123'' ADMIN (Some ''John Doe'')"
      None "Some freshBook" None None RefreshRecommendationCache noPayload commentRule
      exampleUpdate exampleState]
    returned_value_and_no_write [of "UpdateBook ''book-123'' (Some ''Updated Book Title'')"
      None "Some freshBook" None None RefreshRecommendationCache noPayload commentRule
      exampleUpdate exampleState]
  by (simp add: promoteCall_def exampleUpdate_def exampleState_def)



text \<open>
  C5: reconciling twice with the same outcome leaves the cache that reconciling once
  leaves, for every hook, outcome and rule table; and so does calling the guide's
  \<^verbatim>\<open>invalidateAfterResourceChange\<close> twice.
\<close>

theorem reconcile_idempotent_on_cache:
  "cache (reconcile R req outcome (reconcile R req outcome st)) =
     cache (reconcile R req outcome st) \<and>
   invalidateAfterResourceChange entityName (invalidateAfterResourceChange entityName c) =
     invalidateAfterResourceChange entityName c"
proof -
  have guide: "invalidateAfterResourceChange entityName x =
      markedBy [[''dashboard-stats''], [''all-resources''], [entityName], [butlast entityName]] x"
    for x :: "'b queryCache"
    by (simp add: invalidateAfterResourceChange_def invalidateDashboardQueries_def Let_def
        invalidateQueries_markedBy markedBy_markedBy)
  show ?thesis
    by (cases outcome) (simp_all add: reconcile_def run_cache markedBy_twice guide)
qed

text \<open>C5 at the creation of a book, reconciled twice.\<close>

theorem reconcile_idempotent_on_cache_witness:
  "cache (reconcile commentRule (Action (CreateBook ''New Book'')) (Inr (RData None))
       (reconcile commentRule (Action (CreateBook ''New Book'')) (Inr (RData None)) exampleState)) =
     [([''books'', ''book-123''], \<lparr>val = oldBook, stale = True, lastFetchedAt = 1\<rparr>),
      ([''users''], \<lparr>val = noPayload, stale = False, lastFetchedAt = 2\<rparr>),
      ([''fine-config''], \<lparr>val = noPayload, stale = True, lastFetchedAt = 3\<rparr>)]"
proof -
  have once: "cache (reconcile commentRule (Action (CreateBook ''New Book'')) (Inr (RData None)) exampleState) =
     [([''books'', ''book-123''], \<lparr>val = oldBook, stale = True, lastFetchedAt = 1\<rparr>),
      ([''users''], \<lparr>val = noPayload, stale = False, lastFetchedAt = 2\<rparr>),
      ([''fine-config''], \<lparr>val = noPayload, stale = True, lastFetchedAt = 3\<rparr>)]"
    by (simp add: reconcile_def run_def invalidateAfter_def invalidateQueries_def exampleState_def)
  show ?thesis
    using reconcile_idempotent_on_cache [of commentRule "Action (CreateBook ''New Book'')"
        "Inr (RData None)" exampleState "''resources''" "cache exampleState"] once
    by simp
qed

text \<open>
  C6 is what the \<^verbatim>\<open>includes("active borrows")\<close> test in \<^verbatim>\<open>useDeleteBook\<close> is written
  for, and the code misses it: the test sits in the right operand of
  \<^verbatim>\<open>error.message || ...\<close>, which is evaluated only when the message is empty. A delete
  rejected with a message that contains \<^verbatim>\<open>active borrows\<close> shows that message as it
  came, not the explanation.
\<close>

theorem deleteBook_active_borrows_shows_raw_message:
  "str_includes ''Cannot delete books with active borrows'' ''active borrows'' \<and>
   toasts (runMutation commentRule activeBorrowsFailure exampleState) =
     [ToastError ''Deletion Failed'' ''Cannot delete books with active borrows''] \<and>
   \<not> str_includes ''Cannot delete books with active borrows''
       ''Books with active borrows cannot be deleted.''"
proof -
  have a: "str_includes ''Cannot delete books with active borrows'' ''active borrows''"
    unfolding str_includes_def by code_simp
  have b: "\<not> str_includes ''Cannot delete books with active borrows''
       ''Books with active borrows cannot be deleted.''"
    unfolding str_includes_def by code_simp
  have c: "toasts (runMutation commentRule activeBorrowsFailure exampleState) =
     [ToastError ''Deletion Failed'' ''Cannot delete books with active borrows'']"
    by (simp add: activeBorrowsFailure_def runMutation_def reconcile_def run_def onError_def
        orElseOpt_def orElse_def exampleState_def)
  show ?thesis using a b c by simp
qed

text \<open>
  C9: in both copies of \<^verbatim>\<open>handleBorrowBook\<close> no invalidation of the hook comes after
  the navigation, and on success the trace is the invalidation, the toast, then
  \<^verbatim>\<open>router.push\<close>; in both \<^verbatim>\<open>handleLogout\<close> handlers the cache is cleared only after
  the logout toast, and the trace of a logout that goes through shows both.
\<close>

theorem reconcile_before_navigate_and_notify_before_clear:
  "allBefore isReconcile isNavigate (runTask (handleBorrowBook isEligible userId bookId reply)) \<and>
   allBefore isReconcile isNavigate (runTask (handleBorrowBookAtOnce isEligible userId bookId reply)) \<and>
   runTask (handleBorrowBook True userId bookId (ActionResult True msg d)) =
     [Callback (Invalidate BorrowChange), Callback (ShowToast (BookBorrowSuccess ''Book'')),
      Navigate ''/my-profile''] \<and>
   runTask (handleBorrowBookAtOnce True userId bookId (ActionResult True msg d)) =
     [Callback (Invalidate BorrowChange), Callback (ShowToast (BookBorrowSuccess ''Book'')),
      Navigate ''/my-profile''] \<and>
   precededBy isLogoutNotice isClear (runTask (logoutButtonHandleLogout isLoggingOut signOutOk)) \<and>
   precededBy isLogoutNotice isClear (runTask (profileDropdownHandleLogout isLoggingOut signOutOk)) \<and>
   runTask (logoutButtonHandleLogout False True) =
     [SetIsLoggingOut True, Toast AuthLogoutSuccess, InvalidateAllQueries, ClearCache, SignOut] \<and>
   runTask (profileDropdownHandleLogout False True) =
     [SetIsLoggingOut True, Toast AuthLogoutSuccess,
      SetCookie ''logout-in-progress=true; path=/; max-age=10; SameSite=Lax'', SignOut,
      ClearCache]"
proof -
  have borrow: "allBefore isReconcile isNavigate (runTask (handleBorrowBook isEligible userId bookId reply))"
    by (cases reply)
       (simp_all add: handleBorrowBook_def mutate_def runTask_def onError_def orElseOpt_def)
  have atOnce: "allBefore isReconcile isNavigate (runTask (handleBorrowBookAtOnce isEligible userId bookId reply))"
    by (cases reply)
       (simp_all add: handleBorrowBookAtOnce_def mutate_def runTask_def onError_def orElseOpt_def)
  have traces: "runTask (handleBorrowBook True userId bookId (ActionResult True msg d)) =
     [Callback (Invalidate BorrowChange), Callback (ShowToast (BookBorrowSuccess ''Book'')),
      Navigate ''/my-profile'']"
    "runTask (handleBorrowBookAtOnce True userId bookId (ActionResult True msg d)) =
     [Callback (Invalidate BorrowChange), Callback (ShowToast (BookBorrowSuccess ''Book'')),
      Navigate ''/my-profile'']"
    by (simp_all add: handleBorrowBook_def handleBorrowBookAtOnce_def mutate_def runTask_def
        orElseOpt_def)
  have logout: "precededBy isLogoutNotice isClear (runTask (logoutButtonHandleLogout isLoggingOut signOutOk))"
    "precededBy isLogoutNotice isClear (runTask (profileDropdownHandleLogout isLoggingOut signOutOk))"
    by (simp_all add: logoutButtonHandleLogout_def profileDropdownHandleLogout_def runTask_def
        logoutFailed_def)
  have logoutTraces: "runTask (logoutButtonHandleLogout False True) =
     [SetIsLoggingOut True, Toast AuthLogoutSuccess, InvalidateAllQueries, ClearCache, SignOut]"
    "runTask (profileDropdownHandleLogout False True) =
     [SetIsLoggingOut True, Toast AuthLogoutSuccess,
      SetCookie ''logout-in-progress=true; path=/; max-age=10; SameSite=Lax'', SignOut,
      ClearCache]"
    by (simp_all add: logoutButtonHandleLogout_def profileDropdownHandleLogout_def runTask_def)
  show ?thesis by (intro conjI borrow atOnce traces logout logoutTraces)
qed

text \<open>C9 on the two traces of a success.\<close>

theorem reconcile_before_navigate_and_notify_before_clear_witness:
  "allBefore isReconcile isNavigate
     [Callback (Invalidate BorrowChange), Callback (ShowToast (BookBorrowSuccess ''Book'')),
      Navigate ''/my-profile''] \<and>
   precededBy isLogoutNotice isClear
     [SetIsLoggingOut True, Toast AuthLogoutSuccess, InvalidateAllQueries, ClearCache, SignOut]"
  using reconcile_before_navigate_and_notify_before_clear
    [of True "''user-123''" "''book-456''" "ActionResult True None None" None None False True]
  by simp

text \<open>
  C10 does not hold as stated. \<^verbatim>\<open>useCreateReview\<close> has no check and no default: when
  its service rejects with an \<^verbatim>\<open>Error\<close> whose message is empty, \<^verbatim>\<open>mutationFn\<close> throws
  that error and \<^verbatim>\<open>onError\<close> shows the fallback.
\<close>

theorem createReview_empty_error_shows_fallback:
  \<open>mutationFn emptyErrorReview = Inl [] \<and>
   toasts (runMutation commentRule emptyErrorReview exampleState) =
     [ToastError ''Review Failed'' ''Unable to submit review for "book". Please try again.'']\<close>
  by (simp add: emptyErrorReview_def runMutation_def reconcile_def run_def onError_def
      orElseOpt_def orElse_def exampleState_def createReviewHint_def str_includes_def)

text \<open>
  C10, amended: in the fourteen hooks that check \<^verbatim>\<open>result.success\<close>, a result that
  reports the failure makes \<^verbatim>\<open>mutationFn\<close> throw an error whose message is not empty,
  the message of the service when there is one and else the default of the hook, and
  \<^verbatim>\<open>onError\<close> shows that message. The ten service hooks have no check and no default:
  they pass on the error that the service throws, with its message as it is, and return
  what the service resolves to. In every hook, whatever the error, \<^verbatim>\<open>onError\<close> shows
  the message of the error when it is not empty and the fallback only when it is empty,
  and on the empty message every \<^verbatim>\<open>includes\<close> test of a fallback takes its last
  alternative, so that none of the explanations is ever shown.
\<close>

theorem checked_failure_message_and_dead_hints:
  "(\<exists>m. mutationFn (ActionCall a (ActionResult False msg d)) = Inl m \<and> m \<noteq> [] \<and>
        m = (case serviceMessage (ActionCall a (ActionResult False msg d)) of
               Some s \<Rightarrow> s | None \<Rightarrow> failureDefault a) \<and>
        onError (Action a) m = [ShowToast (errorToast (Action a) m)]) \<and>
   mutationFn (ServiceCall s (ServiceThrows thrown)) = Inl thrown \<and>
   mutationFn (ServiceCall s (ServiceValue v)) = Inr (RValue v) \<and>
   onError req message =
     [ShowToast (errorToast req (if message = [] then fallback req [] else message))] \<and>
   deleteBookHint [] = ''Please try again.'' \<and>
   approveBorrowHint [] = ''Please try again.'' \<and>
   createReviewHint [] = ''Please try again.'' \<and>
   updateReviewHint [] = ''Please try again.'' \<and>
   deleteReviewHint [] = ''Please try again.'' \<and>
   adminRequestHint [] = ''Please try again.'' \<and>
   removeAdminHint [] = ''Please try again.'' \<and>
   fineConfigHint [] = ''Please try again.''"
proof -
  have checked: "\<exists>m. mutationFn (ActionCall a (ActionResult False msg d)) = Inl m \<and> m \<noteq> [] \<and>
        m = (case serviceMessage (ActionCall a (ActionResult False msg d)) of
               Some s \<Rightarrow> s | None \<Rightarrow> failureDefault a) \<and>
        onError (Action a) m = [ShowToast (errorToast (Action a) m)]"
    using failureDefault_nonempty [of a]
    by (auto simp: orElseOpt_def orElse_def onError_def split: option.splits)
  have passedOn: "mutationFn (ServiceCall s (ServiceThrows thrown)) = Inl thrown"
    "mutationFn (ServiceCall s (ServiceValue v)) = Inr (RValue v)"
    by simp_all
  have shownText: "onError req message =
     [ShowToast (errorToast req (if message = [] then fallback req [] else message))]"
    by (simp add: onError_def orElse_def)
  show ?thesis by (intro conjI checked passedOn shownText hints_empty)
qed

text \<open>
  C10, amended, at a book creation rejected without a message, at two review calls that
  throw, one with a message and one without, and at the toast of a rejected delete.
\<close>

theorem checked_failure_message_and_dead_hints_witness:
  "mutationFn unexplainedFailure = Inl ''Failed to create book'' \<and>
   mutationFn reviewNotFound = Inl ''Review not found'' \<and>
   mutationFn emptyErrorReview = Inl [] \<and>
   onError (Action (DeleteBook [''book-123''] (Some ''Book Title'')))
       ''Cannot delete books with active borrows'' =
     [ShowToast (ToastError ''Deletion Failed'' ''Cannot delete books with active borrows'')]"
  using checked_failure_message_and_dead_hints [of "CreateBook ''New Book''" None None
      "DeleteReview ''review-123'' None" "''Review not found''" noPayload
      "Action (DeleteBook [''book-123''] (Some ''Book Title''))"
      "''Cannot delete books with active borrows''"]
    checked_failure_message_and_dead_hints [of "CreateBook ''New Book''" None None
      "CreateReview ''book-123'' None" "[]" noPayload
      "Action (DeleteBook [''book-123''] (Some ''Book Title''))"
      "''Cannot delete books with active borrows''"]
  by (simp add: unexplainedFailure_def reviewNotFound_def emptyErrorReview_def orElseOpt_def)

text \<open>
  C7: when a refetch resolves with a \<^verbatim>\<open>lastFetchedAt\<close> older than the one of the entry,
  the entries of the cache are what they were: the late write is dropped, the entry of
  the fingerprint is the one it was, and no fetcher is invoked.
\<close>

theorem stale_write_dropped:
  assumes "lookup (entries rc) fp = Some e" and "fetchedAt < lastFetchedAt e"
  shows "entries (resolveFetch fp v fetchedAt rc) = entries rc \<and>
         lookup (entries (resolveFetch fp v fetchedAt rc)) fp = Some e \<and>
         invoked (resolveFetch fp v fetchedAt rc) = invoked rc \<and>
         fp \<notin> set (pending (resolveFetch fp v fetchedAt rc))"
  using assms by (simp add: resolveFetch_def Let_def)

text \<open>
  C7 at a refetch of \<^verbatim>\<open>book-123\<close> that was started by a read, was overtaken by a
  mutation that overwrote the entry at time 5, and resolves with the time 3: the entry
  of the mutation stays. A fetch that resolves with the time 7 replaces it.
\<close>

theorem stale_write_dropped_witness:
  "lookup (entries (resolveFetch [''books'', ''book-123''] oldBook 3
             (setEntry [''books'', ''book-123''] freshBook 5
                (snd (read [''books'', ''book-123''] exampleReadCache)))))
      [''books'', ''book-123''] =
     Some \<lparr>val = freshBook, stale = False, lastFetchedAt = 5\<rparr> \<and>
   lookup (entries (resolveFetch [''books'', ''book-123''] oldBook 7
             (setEntry [''books'', ''book-123''] freshBook 5
                (snd (read [''books'', ''book-123''] exampleReadCache)))))
      [''books'', ''book-123''] =
     Some \<lparr>val = oldBook, stale = False, lastFetchedAt = 7\<rparr>"
proof -
  let ?rc = "setEntry [''books'', ''book-123''] freshBook 5
                (snd (read [''books'', ''book-123''] exampleReadCache))"
  have e: "lookup (entries ?rc) [''books'', ''book-123''] =
      Some \<lparr>val = freshBook, stale = False, lastFetchedAt = 5\<rparr>"
    by (simp add: setEntry_def lookup_store)
  have older: "(3::nat) < lastFetchedAt \<lparr>val = freshBook, stale = False, lastFetchedAt = 5\<rparr>"
    by simp
  have newer: "\<not> (7::nat) < lastFetchedAt \<lparr>val = freshBook, stale = False, lastFetchedAt = 5\<rparr>"
    by simp
  show ?thesis
    using stale_write_dropped [OF e older, of oldBook] fresh_write_applied [OF e newer, of oldBook] e
    by simp
qed

text \<open>
  C8: for a fingerprint that is present and stale, with no fetch of it in flight, and
  for every \<open>n \<ge> 1\<close>, \<open>n\<close> reads before the fetch resolves invoke the fetcher exactly
  once; every reader gets the last known value at once, the same for all, and the
  entries are unchanged.
\<close>

theorem concurrent_reads_one_fetch:
  assumes "lookup (entries rc) fp = Some e" and "stale e" and "fp \<notin> set (pending rc)"
    and "0 < n"
  shows "fst (reads n fp rc) = replicate n (Some (val e)) \<and>
         invoked (snd (reads n fp rc)) = invoked rc @ [fp] \<and>
         pending (snd (reads n fp rc)) = fp # pending rc \<and>
         entries (snd (reads n fp rc)) = entries rc"
proof -
  obtain k where n: "n = Suc k" using assms(4) by (cases n) auto
  let ?rc = "rc\<lparr>pending := fp # pending rc, invoked := invoked rc @ [fp]\<rparr>"
  have first: "read fp rc = (Some (val e), ?rc)"
    using assms(1-3) by (simp add: read_def startFetch_def)
  have rest: "reads k fp ?rc = (replicate k (Some (val e)), ?rc)"
    using assms(1,2) by (intro reads_pending) simp_all
  show ?thesis by (simp add: n first rest)
qed

text \<open>C8 at three reads of the stale entry of \<^verbatim>\<open>book-123\<close>.\<close>

theorem concurrent_reads_one_fetch_witness:
  "reads 3 [''books'', ''book-123''] exampleReadCache =
     ([Some oldBook, Some oldBook, Some oldBook],
      exampleReadCache\<lparr>pending := [[''books'', ''book-123'']],
                        invoked := [[''books'', ''book-123'']]\<rparr>)"
proof -
  have e: "lookup (entries exampleReadCache) [''books'', ''book-123''] =
      Some \<lparr>val = oldBook, stale = True, lastFetchedAt = 1\<rparr>"
    by (simp add: exampleReadCache_def)
  have p: "[''books'', ''book-123''] \<notin> set (pending exampleReadCache)"
    by (simp add: exampleReadCache_def)
  have s: "stale \<lparr>val = oldBook, stale = True, lastFetchedAt = 1\<rparr>" by simp
  have n: "0 < (3::nat)" by simp
  show ?thesis
    using concurrent_reads_one_fetch [OF e s p n]
    by (cases "reads 3 [''books'', ''book-123''] exampleReadCache")
       (simp add: exampleReadCache_def numeral_3_eq_3)
qed

end
